theory Spec2Isabelle
  imports Complex_Main
begin

section \<open>Data model\<close>

text \<open>
  The tables of \<^verbatim>\<open>src/lib/db.ts\<close> and the interfaces of \<^verbatim>\<open>src/types/exam.ts\<close>.
  Every field carries a prefix naming its table, since the source reuses \<^verbatim>\<open>id\<close>,
  \<^verbatim>\<open>examId\<close>, \<^verbatim>\<open>startTime\<close> and others across tables. The columns \<^verbatim>\<open>createdAt\<close> and
  \<^verbatim>\<open>updatedAt\<close>, which the store fills from its own clock and no handler reads, are left
  out. Strings are lists of 8-bit characters.
\<close>

datatype role = Admin | Teacher | Student

text \<open>The object \<^verbatim>\<open>userWithoutPassword\<close> (\<^verbatim>\<open>Omit<User, 'password'>\<close>).\<close>

record identity =
  u_id :: nat
  u_username :: string
  u_email :: string
  u_role :: role
  u_fullName :: string
  u_class :: "string option"
  u_subject :: "string option"

text \<open>A row of \<^verbatim>\<open>users\<close>: the identity and the bcrypt digest.\<close>

record user = identity +
  u_password :: string

datatype questionType = Multiple_choice | True_false | Essay

datatype attemptStatus = In_progress | Completed | Abandoned | Time_out

text \<open>
  A row of \<^verbatim>\<open>exams\<close>. \<open>e_startTime\<close> and \<open>e_endTime\<close> hold what
  \<^verbatim>\<open>new Date(exam.startTime)\<close> yields for the stored text: the time value in
  milliseconds, or \<open>None\<close> for an invalid date (NaN).
\<close>

record exam =
  e_id :: nat
  e_title :: string
  e_description :: string
  e_subject :: string
  e_teacherId :: nat
  e_duration :: int
  e_totalQuestions :: int
  e_passingScore :: int
  e_startTime :: "int option"
  e_endTime :: "int option"
  e_isActive :: bool
  e_allowReview :: bool
  e_shuffleQuestions :: bool

record question =
  q_id :: nat
  q_examId :: nat
  q_questionText :: string
  q_questionType :: questionType
  q_options :: "string option"
  q_correctAnswer :: string
  q_points :: int
  q_explanation :: "string option"
  q_imageUrl :: "string option"
  q_order :: int

text \<open>
  A row of \<^verbatim>\<open>exam_attempts\<close>. Numbers that JavaScript computes in double precision
  (\<open>a_percentage\<close>) are rationals: the exact value of the double.
\<close>

record attempt =
  a_id :: nat
  a_examId :: nat
  a_studentId :: nat
  a_startTime :: int
  a_endTime :: "int option"
  a_status :: attemptStatus
  a_score :: "int option"
  a_totalPoints :: "int option"
  a_percentage :: "rat option"
  a_timeSpent :: int
  a_ipAddress :: string
  a_userAgent :: string

record answer =
  ans_id :: nat
  ans_attemptId :: nat
  ans_questionId :: nat
  ans_answer :: string
  ans_isCorrect :: bool
  ans_pointsEarned :: int
  ans_timeSpent :: int

record result =
  r_id :: nat
  r_attemptId :: nat
  r_studentId :: nat
  r_examId :: nat
  r_score :: int
  r_totalPoints :: int
  r_percentage :: rat
  r_grade :: string
  r_passed :: bool
  r_completionTime :: int
  r_correctAnswers :: nat
  r_wrongAnswers :: nat
  r_skippedAnswers :: nat
  r_feedback :: string

text \<open>
  The store: one list of rows per table, in insertion order, and the counters of
  \<^verbatim>\<open>sqlite_sequence\<close> that \<^verbatim>\<open>AUTOINCREMENT\<close> keeps (the largest row id ever given out).
\<close>

record db =
  users :: "user list"
  exams :: "exam list"
  questions :: "question list"
  exam_attempts :: "attempt list"
  exam_answers :: "answer list"
  exam_results :: "result list"
  seq_users :: nat
  seq_attempts :: nat
  seq_answers :: nat
  seq_results :: nat

text \<open>What \<^verbatim>\<open>run\<close> raises: a violated \<^verbatim>\<open>UNIQUE\<close> constraint, or any other store failure.\<close>

datatype sqlite_error = SQLITE_CONSTRAINT_UNIQUE | SQLITE_FAILURE

text \<open>
  The values that a caller hands to \<^verbatim>\<open>run\<close> for the parameters of a statement. The
  driver (\<^verbatim>\<open>better-sqlite3\<close>) binds numbers, strings, bigints, buffers and null; on any
  other JavaScript value, a boolean among them, \<^verbatim>\<open>run\<close> throws a \<^verbatim>\<open>TypeError\<close> before
  the statement reaches the store. So \<^verbatim>\<open>run\<close> raises either that \<^verbatim>\<open>TypeError\<close> or an
  error of the store.
\<close>

datatype bind_value = BNumber rat | BText string | BBoolean bool | BNull

fun bindable :: "bind_value \<Rightarrow> bool" where
  "bindable (BBoolean b) = False"
| "bindable v = True"

datatype run_error = TypeError | SqliteError sqlite_error

text \<open>
  The next row id of an \<^verbatim>\<open>AUTOINCREMENT\<close> key: one more than the largest id in the table
  or ever given out.
\<close>

definition next_rowid :: "nat \<Rightarrow> nat list \<Rightarrow> nat" where
  "next_rowid seq ids = Suc (fold max ids seq)"

section \<open>External collaborators\<close>

text \<open>
  The libraries the repository calls and does not contain are parameters:
  \<^verbatim>\<open>jwt.sign(payload, JWT_SECRET, {expiresIn})\<close>, \<^verbatim>\<open>jwt.verify(token, JWT_SECRET)\<close>
  (\<open>None\<close> when it throws), \<^verbatim>\<open>bcrypt.hash(password, 12)\<close>, \<^verbatim>\<open>bcrypt.compare\<close> and
  \<^verbatim>\<open>JSON.parse\<close> of a stored option list (\<open>None\<close> when it throws).
\<close>

record JWTPayload =
  p_userId :: nat
  p_username :: string
  p_role :: role

record ext =
  jwt_sign :: "JWTPayload \<Rightarrow> string"
  jwt_verify :: "string \<Rightarrow> JWTPayload option"
  bcrypt_hash :: "string \<Rightarrow> string"
  bcrypt_compare :: "string \<Rightarrow> string \<Rightarrow> bool"
  JSON_parse :: "string \<Rightarrow> string list option"

section \<open>Requests and responses\<close>

text \<open>The headers and the cookie that the handlers read.\<close>

record request =
  authorization :: "string option"
  auth_cookie :: "string option"
  ip :: "string option"
  x_forwarded_for :: "string option"
  user_agent :: "string option"

text \<open>
  A question as a response carries it. A field the object does not have is \<open>None\<close>:
  the student's copy has no \<^verbatim>\<open>examId\<close>, \<^verbatim>\<open>correctAnswer\<close> and \<^verbatim>\<open>explanation\<close>.
\<close>

record question_view =
  qv_id :: nat
  qv_questionText :: string
  qv_questionType :: questionType
  qv_options :: "string list"
  qv_points :: int
  qv_imageUrl :: "string option"
  qv_order :: int
  qv_examId :: "nat option"
  qv_correctAnswer :: "string option"
  qv_explanation :: "string option"

record exam_summary =
  es_id :: nat
  es_title :: string
  es_description :: string
  es_duration :: int
  es_totalQuestions :: int

record submit_data =
  sd_resultId :: nat
  sd_score :: int
  sd_totalPoints :: int
  sd_percentage :: rat
  sd_grade :: string
  sd_passed :: bool
  sd_correctAnswers :: nat
  sd_wrongAnswers :: nat
  sd_skippedAnswers :: nat

text \<open>What a response body holds besides \<^verbatim>\<open>success\<close> and \<^verbatim>\<open>message\<close>.\<close>

datatype payload =
  NoData
  | Errors "string list"
  | UserCreated nat
  | AuthBody "identity option" "string option"
  | TokenValid identity
  | ExistingAttempt nat
  | ExamData exam "question_view list option"
  | AttemptStarted nat exam_summary "question_view list" int
  | Submitted submit_data

record response =
  status :: nat
  success :: bool
  message :: string
  payload :: payload
  set_cookie :: "string option"

definition json :: "nat \<Rightarrow> bool \<Rightarrow> string \<Rightarrow> payload \<Rightarrow> response" where
  "json st ok msg p =
     \<lparr>status = st, success = ok, message = msg, payload = p, set_cookie = None\<rparr>"

section \<open>Queries of \<^verbatim>\<open>src/lib/db.ts\<close>\<close>

definition findByUsername :: "db \<Rightarrow> string \<Rightarrow> user option" where
  "findByUsername d name = find (\<lambda>u. u_username u = name) (users d)"

definition findByEmail :: "db \<Rightarrow> string \<Rightarrow> user option" where
  "findByEmail d mail = find (\<lambda>u. u_email u = mail) (users d)"

definition findUserById :: "db \<Rightarrow> nat \<Rightarrow> user option" where
  "findUserById d i = find (\<lambda>u. u_id u = i) (users d)"

text \<open>
  \<^verbatim>\<open>userQueries.createUser\<close>: the insert fails on a taken username or email
  (\<^verbatim>\<open>UNIQUE\<close>); the \<^verbatim>\<open>CHECK\<close> on the role holds by the type.
\<close>

definition createUser ::
  "db \<Rightarrow> string \<Rightarrow> string \<Rightarrow> string \<Rightarrow> role \<Rightarrow> string \<Rightarrow> string option \<Rightarrow> string option
     \<Rightarrow> sqlite_error + (nat \<times> db)" where
  "createUser d name mail pw r full cls subj =
     (if findByUsername d name \<noteq> None \<or> findByEmail d mail \<noteq> None
      then Inl SQLITE_CONSTRAINT_UNIQUE
      else (let rowid = next_rowid (seq_users d) (map u_id (users d)) in
        Inr (rowid,
          d\<lparr>users := users d @
               [\<lparr>u_id = rowid, u_username = name, u_email = mail, u_role = r,
                 u_fullName = full, u_class = cls, u_subject = subj, u_password = pw\<rparr>],
            seq_users := rowid\<rparr>)))"

definition findExamById :: "db \<Rightarrow> nat \<Rightarrow> exam option" where
  "findExamById d i = find (\<lambda>e. e_id e = i) (exams d)"

text \<open>\<^verbatim>\<open>questionQueries.findByExam\<close>: the exam's questions, ordered by \<^verbatim>\<open>"order"\<close>.\<close>

definition findByExam :: "db \<Rightarrow> nat \<Rightarrow> question list" where
  "findByExam d i = sort_key q_order (filter (\<lambda>q. q_examId q = i) (questions d))"

definition findAttemptById :: "db \<Rightarrow> nat \<Rightarrow> attempt option" where
  "findAttemptById d i = find (\<lambda>a. a_id a = i) (exam_attempts d)"

text \<open>
  \<^verbatim>\<open>attemptQueries.findByStudentAndExam\<close>:
  \<^verbatim>\<open>SELECT * FROM exam_attempts WHERE studentId = ? AND examId = ?\<close>, first row.
\<close>

definition findByStudentAndExam :: "db \<Rightarrow> nat \<Rightarrow> nat \<Rightarrow> attempt option" where
  "findByStudentAndExam d sid eid =
     find (\<lambda>a. a_studentId a = sid \<and> a_examId a = eid) (exam_attempts d)"

text \<open>
  \<^verbatim>\<open>attemptQueries.createAttempt\<close>. The table \<^verbatim>\<open>exam_attempts\<close> declares a primary key
  and two foreign keys and no other constraint; status and time spent take their defaults.
\<close>

definition createAttempt :: "db \<Rightarrow> nat \<Rightarrow> nat \<Rightarrow> int \<Rightarrow> string \<Rightarrow> string \<Rightarrow> nat \<times> db" where
  "createAttempt d eid sid start ipAddress userAgent =
     (let rowid = next_rowid (seq_attempts d) (map a_id (exam_attempts d)) in
      (rowid,
       d\<lparr>exam_attempts := exam_attempts d @
            [\<lparr>a_id = rowid, a_examId = eid, a_studentId = sid, a_startTime = start,
              a_endTime = None, a_status = In_progress, a_score = None,
              a_totalPoints = None, a_percentage = None, a_timeSpent = 0,
              a_ipAddress = ipAddress, a_userAgent = userAgent\<rparr>],
         seq_attempts := rowid\<rparr>))"

definition updateAttempt ::
  "db \<Rightarrow> int \<Rightarrow> attemptStatus \<Rightarrow> int \<Rightarrow> int \<Rightarrow> rat \<Rightarrow> int \<Rightarrow> nat \<Rightarrow> db" where
  "updateAttempt d endTime st score totalPoints pct spent i =
     d\<lparr>exam_attempts :=
          map (\<lambda>a. if a_id a = i
                 then a\<lparr>a_endTime := Some endTime, a_status := st, a_score := Some score,
                        a_totalPoints := Some totalPoints, a_percentage := Some pct,
                        a_timeSpent := spent\<rparr>
                 else a)
              (exam_attempts d)\<rparr>"

text \<open>
  \<^verbatim>\<open>answerQueries.createAnswer\<close>, called with the six values that the submission binds:
  the fourth is the JavaScript boolean \<^verbatim>\<open>isCorrect\<close> (or \<^verbatim>\<open>false\<close>), bound as it is.
\<close>

definition createAnswer ::
  "db \<Rightarrow> nat \<Rightarrow> nat \<Rightarrow> string \<Rightarrow> bool \<Rightarrow> int \<Rightarrow> int \<Rightarrow> run_error + db" where
  "createAnswer d aid qid ans isCorrect pts spent =
     (if list_all bindable
           [BNumber (of_nat aid), BNumber (of_nat qid), BText ans, BBoolean isCorrect,
            BNumber (of_int pts), BNumber (of_int spent)]
      then
        (let rowid = next_rowid (seq_answers d) (map ans_id (exam_answers d)) in
         Inr (d\<lparr>exam_answers := exam_answers d @
                  [\<lparr>ans_id = rowid, ans_attemptId = aid, ans_questionId = qid,
                    ans_answer = ans, ans_isCorrect = isCorrect, ans_pointsEarned = pts,
                    ans_timeSpent = spent\<rparr>],
                seq_answers := rowid\<rparr>))
      else Inl TypeError)"

text \<open>\<^verbatim>\<open>SELECT * FROM exam_results WHERE attemptId = ?\<close>\<close>

definition findResultByAttempt :: "db \<Rightarrow> nat \<Rightarrow> result option" where
  "findResultByAttempt d aid = find (\<lambda>r. r_attemptId r = aid) (exam_results d)"

text \<open>
  \<^verbatim>\<open>resultQueries.createResult\<close>, called with the thirteen values that the submission
  binds: the eighth is the JavaScript boolean \<^verbatim>\<open>passed\<close>, bound as it is. \<^verbatim>\<open>attemptId\<close>
  is \<^verbatim>\<open>UNIQUE\<close> in \<^verbatim>\<open>exam_results\<close>. The argument is the row without its id.
\<close>

definition createResult :: "db \<Rightarrow> result \<Rightarrow> run_error + (nat \<times> db)" where
  "createResult d r =
     (if list_all bindable
           [BNumber (of_nat (r_attemptId r)), BNumber (of_nat (r_studentId r)),
            BNumber (of_nat (r_examId r)), BNumber (of_int (r_score r)),
            BNumber (of_int (r_totalPoints r)), BNumber (r_percentage r), BText (r_grade r),
            BBoolean (r_passed r), BNumber (of_int (r_completionTime r)),
            BNumber (of_nat (r_correctAnswers r)), BNumber (of_nat (r_wrongAnswers r)),
            BNumber (of_nat (r_skippedAnswers r)), BText (r_feedback r)]
      then
        (if findResultByAttempt d (r_attemptId r) \<noteq> None
         then Inl (SqliteError SQLITE_CONSTRAINT_UNIQUE)
         else (let rowid = next_rowid (seq_results d) (map r_id (exam_results d)) in
           Inr (rowid,
             d\<lparr>exam_results := exam_results d @ [r\<lparr>r_id := rowid\<rparr>],
               seq_results := rowid\<rparr>)))
      else Inl TypeError)"

section \<open>Authentication library (\<^verbatim>\<open>lib/auth.ts\<close>)\<close>

definition generateToken :: "ext \<Rightarrow> identity \<Rightarrow> string" where
  "generateToken x u =
     jwt_sign x \<lparr>p_userId = u_id u, p_username = u_username u, p_role = u_role u\<rparr>"

definition verifyToken :: "ext \<Rightarrow> string \<Rightarrow> JWTPayload option" where
  "verifyToken x token = jwt_verify x token"

text \<open>The nine-field copy that leaves the password out.\<close>

definition userWithoutPassword :: "user \<Rightarrow> identity" where
  "userWithoutPassword u =
     \<lparr>u_id = u_id u, u_username = u_username u, u_email = u_email u, u_role = u_role u,
      u_fullName = u_fullName u, u_class = u_class u, u_subject = u_subject u\<rparr>"

text \<open>
  \<^verbatim>\<open>LoginCredentials\<close> as the JSON body gives them: a field that is missing is \<open>None\<close>.
\<close>

record LoginCredentials =
  lc_username :: "string option"
  lc_password :: "string option"

record AuthResponse =
  ar_success :: bool
  ar_user :: "identity option"
  ar_token :: "string option"
  ar_message :: string

text \<open>JavaScript's \<^verbatim>\<open>!s\<close> for an optional string: missing or empty.\<close>

definition falsy :: "string option \<Rightarrow> bool" where
  "falsy s = (case s of None \<Rightarrow> True | Some v \<Rightarrow> v = [])"

definition authenticateUser :: "ext \<Rightarrow> db \<Rightarrow> LoginCredentials \<Rightarrow> AuthResponse" where
  "authenticateUser x d credentials =
     (if falsy (lc_username credentials) \<or> falsy (lc_password credentials)
      then \<lparr>ar_success = False, ar_user = None, ar_token = None,
             ar_message = ''Username and password are required''\<rparr>
      else
        (case findByUsername d (the (lc_username credentials)) of
           None \<Rightarrow> \<lparr>ar_success = False, ar_user = None, ar_token = None,
                     ar_message = ''Invalid username or password''\<rparr>
         | Some u \<Rightarrow>
             if \<not> bcrypt_compare x (the (lc_password credentials)) (u_password u)
             then \<lparr>ar_success = False, ar_user = None, ar_token = None,
                    ar_message = ''Invalid username or password''\<rparr>
             else \<lparr>ar_success = True, ar_user = Some (userWithoutPassword u),
                    ar_token = Some (generateToken x (userWithoutPassword u)),
                    ar_message = ''Login successful''\<rparr>))"

definition getUserFromToken :: "ext \<Rightarrow> db \<Rightarrow> string \<Rightarrow> identity option" where
  "getUserFromToken x d token =
     (case verifyToken x token of
        None \<Rightarrow> None
      | Some decoded \<Rightarrow>
          (case findUserById d (p_userId decoded) of
             None \<Rightarrow> None
           | Some u \<Rightarrow> Some (userWithoutPassword u)))"

definition extractTokenFromHeaders :: "string option \<Rightarrow> string option" where
  "extractTokenFromHeaders authHeader =
     (if falsy authHeader \<or> take 7 (the authHeader) \<noteq> ''Bearer '' then None
      else Some (drop 7 (the authHeader)))"

definition isAdmin :: "identity \<Rightarrow> bool" where
  "isAdmin u = (u_role u = Admin)"

definition isTeacher :: "identity \<Rightarrow> bool" where
  "isTeacher u = (u_role u = Teacher)"

definition isStudent :: "identity \<Rightarrow> bool" where
  "isStudent u = (u_role u = Student)"

text \<open>The optional \<^verbatim>\<open>teacherId?: number\<close> is \<open>None\<close> when undefined.\<close>

definition canAccessExam :: "identity \<Rightarrow> nat option \<Rightarrow> bool" where
  "canAccessExam u teacherId =
     (if isAdmin u then True
      else if isTeacher u \<and> teacherId = Some (u_id u) then True
      else if isStudent u then True
      else False)"

definition canManageExam :: "identity \<Rightarrow> nat option \<Rightarrow> bool" where
  "canManageExam u teacherId =
     (if isAdmin u then True
      else if isTeacher u \<and> teacherId = Some (u_id u) then True
      else False)"

record validation =
  isValid :: bool
  errors :: "string list"

definition is_letter :: "char \<Rightarrow> bool" where
  "is_letter c = (let n = (of_char c :: nat) in (65 \<le> n \<and> n \<le> 90) \<or> (97 \<le> n \<and> n \<le> 122))"

definition is_digit :: "char \<Rightarrow> bool" where
  "is_digit c = (let n = (of_char c :: nat) in 48 \<le> n \<and> n \<le> 57)"

text \<open>The class \<^verbatim>\<open>\s\<close> among 8-bit characters: tab to carriage return, space, no-break space.\<close>

definition is_space :: "char \<Rightarrow> bool" where
  "is_space c = (let n = (of_char c :: nat) in (9 \<le> n \<and> n \<le> 13) \<or> n = 32 \<or> n = 160)"

definition validatePassword :: "string \<Rightarrow> validation" where
  "validatePassword pw =
     (let errs =
        (if length pw < 6 then [''Password must be at least 6 characters long''] else []) @
        (if \<not> list_ex is_letter pw then [''Password must contain at least one letter''] else []) @
        (if \<not> list_ex is_digit pw then [''Password must contain at least one number''] else [])
      in \<lparr>isValid = (errs = []), errors = errs\<rparr>)"

text \<open>
  \<^verbatim>\<open>/^[^\s@]+@[^\s@]+\.[^\s@]+$/\<close>: no white space, exactly one \<^verbatim>\<open>@\<close> with something
  before it, and after it a dot that is neither first nor last.
\<close>

definition validateEmail :: "string \<Rightarrow> bool" where
  "validateEmail mail =
     (let local = takeWhile (\<lambda>c. c \<noteq> CHR ''@'') mail;
          domain = drop (Suc (length local)) mail
      in \<not> list_ex is_space mail \<and> local \<noteq> [] \<and> length local < length mail \<and>
         \<not> list_ex (\<lambda>c. c = CHR ''@'') domain \<and>
         list_ex (\<lambda>i. domain ! i = CHR ''.'') [1 ..< length domain - 1])"

definition validateUsername :: "string \<Rightarrow> validation" where
  "validateUsername name =
     (let errs =
        (if length name < 3 then [''Username must be at least 3 characters long''] else []) @
        (if length name > 20 then [''Username must be less than 20 characters''] else []) @
        (if \<not> (name \<noteq> [] \<and> list_all (\<lambda>c. is_letter c \<or> is_digit c \<or> c = CHR ''_'') name)
         then [''Username can only contain letters, numbers, and underscores''] else [])
      in \<lparr>isValid = (errs = []), errors = errs\<rparr>)"

section \<open>Authentication route (\<^verbatim>\<open>app/api/auth/route.ts\<close>)\<close>

definition handleLogin :: "ext \<Rightarrow> db \<Rightarrow> LoginCredentials \<Rightarrow> response" where
  "handleLogin x d credentials =
     (let res = authenticateUser x d credentials in
      if ar_success res
      then \<lparr>status = 200, success = True, message = ar_message res,
             payload = AuthBody (ar_user res) (ar_token res),
             set_cookie = (if falsy (ar_token res) then None else ar_token res)\<rparr>
      else \<lparr>status = 401, success = False, message = ar_message res,
             payload = AuthBody (ar_user res) (ar_token res), set_cookie = None\<rparr>)"

text \<open>The body of a registration; \<^verbatim>\<open>data.class || null\<close> turns an empty string into null.\<close>

record register_data =
  rd_username :: string
  rd_email :: string
  rd_password :: string
  rd_role :: role
  rd_fullName :: string
  rd_class :: "string option"
  rd_subject :: "string option"

definition or_null :: "string option \<Rightarrow> string option" where
  "or_null s = (if falsy s then None else s)"

definition handleRegister :: "ext \<Rightarrow> db \<Rightarrow> register_data \<Rightarrow> response \<times> db" where
  "handleRegister x d data =
     (let usernameValidation = validateUsername (rd_username data) in
      if \<not> isValid usernameValidation
      then (json 400 False ''Username validation failed'' (Errors (errors usernameValidation)), d)
      else if \<not> validateEmail (rd_email data)
      then (json 400 False ''Invalid email format'' NoData, d)
      else
        (let passwordValidation = validatePassword (rd_password data) in
         if \<not> isValid passwordValidation
         then (json 400 False ''Password validation failed''
                 (Errors (errors passwordValidation)), d)
         else if findByUsername d (rd_username data) \<noteq> None
         then (json 409 False ''Username already exists'' NoData, d)
         else if findByEmail d (rd_email data) \<noteq> None
         then (json 409 False ''Email already exists'' NoData, d)
         else
           (let hashedPassword = bcrypt_hash x (rd_password data) in
            case createUser d (rd_username data) (rd_email data) hashedPassword
                   (rd_role data) (rd_fullName data) (or_null (rd_class data))
                   (or_null (rd_subject data)) of
              Inr (rowid, d') \<Rightarrow> (json 200 True ''User created successfully'' (UserCreated rowid), d')
            | Inl SQLITE_CONSTRAINT_UNIQUE \<Rightarrow>
                (json 409 False ''Username or email already exists'' NoData, d)
            | Inl SQLITE_FAILURE \<Rightarrow> (json 500 False ''Registration failed'' NoData, d))))"

text \<open>\<^verbatim>\<open>String.prototype.replace\<close> with a string pattern: the first occurrence only.\<close>

fun replace_first :: "string \<Rightarrow> string \<Rightarrow> string \<Rightarrow> string" where
  "replace_first pat rep [] = (if pat = [] then rep else [])"
| "replace_first pat rep (c # cs) =
     (if take (length pat) (c # cs) = pat then rep @ drop (length pat) (c # cs)
      else c # replace_first pat rep cs)"

text \<open>JavaScript's \<^verbatim>\<open>a || b\<close> on optional strings.\<close>

definition js_or :: "string option \<Rightarrow> string option \<Rightarrow> string option" where
  "js_or a b = (if falsy a then b else a)"

definition handleVerifyToken :: "ext \<Rightarrow> db \<Rightarrow> request \<Rightarrow> response" where
  "handleVerifyToken x d req =
     (let token = js_or (map_option (replace_first ''Bearer '' []) (authorization req))
                        (auth_cookie req) in
      if falsy token then json 401 False ''No token provided'' NoData
      else
        (case getUserFromToken x d (the token) of
           None \<Rightarrow> json 401 False ''Invalid or expired token'' NoData
         | Some u \<Rightarrow> json 200 True ''Token valid'' (TokenValid u)))"

text \<open>The body of a POST to the route, by its \<^verbatim>\<open>action\<close>.\<close>

datatype auth_body =
  Login LoginCredentials
  | Register register_data
  | Verify_token
  | Other_action

definition POST_auth :: "ext \<Rightarrow> db \<Rightarrow> request \<Rightarrow> auth_body \<Rightarrow> response \<times> db" where
  "POST_auth x d req body =
     (case body of
        Login credentials \<Rightarrow> (handleLogin x d credentials, d)
      | Register data \<Rightarrow> handleRegister x d data
      | Verify_token \<Rightarrow> (handleVerifyToken x d req, d)
      | Other_action \<Rightarrow> (json 400 False ''Invalid action'' NoData, d))"

section \<open>JavaScript values and numbers\<close>

text \<open>
  Scores and point weights are integers (\<^verbatim>\<open>INTEGER\<close> columns), which JavaScript adds
  exactly below \<open>2^53\<close>. A quotient or product is rounded to the nearest double, ties to
  the even significand; a double is the rational it denotes. \<open>fl\<close> is that rounding for
  the normal range of binary64 (53-bit significand), which holds the quotients and
  products that the handlers form of integers below \<open>2^53\<close>: \<open>binade x\<close> is the
  exponent \<open>e\<close> with \<open>2^e \<le> x < 2^(e+1)\<close>.
\<close>

function ilog2 :: "int \<Rightarrow> int" where
  "ilog2 n = (if n < 2 then 0 else 1 + ilog2 (n div 2))"
  by pat_completeness auto
termination
  by (relation "measure nat") auto

declare ilog2.simps [simp del]

definition pow2 :: "int \<Rightarrow> rat" where
  "pow2 e = (if 0 \<le> e then 2 ^ nat e else 1 / 2 ^ nat (- e))"

definition binade :: "rat \<Rightarrow> int" where
  "binade x =
     (if 1 \<le> x then ilog2 \<lfloor>x\<rfloor>
      else (let k = ilog2 \<lfloor>1 / x\<rfloor> in if x * pow2 k = 1 then - k else - k - 1))"

definition roundTiesToEven :: "rat \<Rightarrow> int" where
  "roundTiesToEven x =
     (let k = \<lfloor>x\<rfloor>; r = x - of_int k in
      if r < 1 / 2 then k else if 1 / 2 < r then k + 1 else if even k then k else k + 1)"

definition fl :: "rat \<Rightarrow> rat" where
  "fl x =
     (if x = 0 then 0
      else (let a = \<bar>x\<bar>; e = binade a; m = roundTiesToEven (a * pow2 (52 - e))
            in sgn x * of_int m * pow2 (e - 52)))"

definition js_div :: "rat \<Rightarrow> rat \<Rightarrow> rat" where
  "js_div a b = fl (a / b)"

definition js_mul :: "rat \<Rightarrow> rat \<Rightarrow> rat" where
  "js_mul a b = fl (a * b)"

text \<open>\<^verbatim>\<open>Math.round\<close>: the nearest integer, a half going up.\<close>

definition Math_round :: "rat \<Rightarrow> int" where
  "Math_round x = \<lfloor>x + 1 / 2\<rfloor>"

text \<open>
  A value of the submitted \<^verbatim>\<open>answers\<close> object: a string, a number, a boolean or null.
  The handler does nothing with a number but call \<^verbatim>\<open>toString\<close> on it, so a number is
  given by the string that \<^verbatim>\<open>Number.prototype.toString\<close> prints for it (\<^verbatim>\<open>1\<close>, \<^verbatim>\<open>0.5\<close>,
  \<^verbatim>\<open>1e+21\<close>). \<^verbatim>\<open>toString\<close> is \<open>None\<close> where the call throws (on null).
\<close>

datatype jsval = JString string | JNumber string | JBoolean bool | JNull

fun toString :: "jsval \<Rightarrow> string option" where
  "toString (JString s) = Some s"
| "toString (JNumber printed) = Some printed"
| "toString (JBoolean b) = Some (if b then ''true'' else ''false'')"
| "toString JNull = None"

section \<open>Exam route (\<^verbatim>\<open>app/api/exams/[id]/route.ts\<close>)\<close>

text \<open>
  The first lines of each handler: the bearer token or else the cookie, resolved to a
  user; null without a token.
\<close>

definition request_user :: "ext \<Rightarrow> db \<Rightarrow> request \<Rightarrow> identity option" where
  "request_user x d req =
     (let token = js_or (extractTokenFromHeaders (authorization req)) (auth_cookie req) in
      if falsy token then None else getUserFromToken x d (the token))"

text \<open>\<^verbatim>\<open>q.options ? JSON.parse(q.options) : []\<close>\<close>

definition parse_options :: "ext \<Rightarrow> string option \<Rightarrow> string list option" where
  "parse_options x opts = (if falsy opts then Some [] else JSON_parse x (the opts))"

text \<open>The copy of a question made for a student, and the full copy.\<close>

definition student_view :: "ext \<Rightarrow> question \<Rightarrow> question_view option" where
  "student_view x q =
     map_option
       (\<lambda>opts. \<lparr>qv_id = q_id q, qv_questionText = q_questionText q,
                 qv_questionType = q_questionType q, qv_options = opts,
                 qv_points = q_points q, qv_imageUrl = q_imageUrl q, qv_order = q_order q,
                 qv_examId = None, qv_correctAnswer = None, qv_explanation = None\<rparr>)
       (parse_options x (q_options q))"

definition full_view :: "ext \<Rightarrow> question \<Rightarrow> question_view option" where
  "full_view x q =
     map_option
       (\<lambda>opts. \<lparr>qv_id = q_id q, qv_questionText = q_questionText q,
                 qv_questionType = q_questionType q, qv_options = opts,
                 qv_points = q_points q, qv_imageUrl = q_imageUrl q, qv_order = q_order q,
                 qv_examId = Some (q_examId q), qv_correctAnswer = Some (q_correctAnswer q),
                 qv_explanation = q_explanation q\<rparr>)
       (parse_options x (q_options q))"

text \<open>
  GET: the query parameters arrive as the raw strings of the URL. A \<^verbatim>\<open>JSON.parse\<close> that
  throws inside \<^verbatim>\<open>map\<close> ends in the \<^verbatim>\<open>catch\<close> block.
\<close>

definition GET_exam ::
  "ext \<Rightarrow> db \<Rightarrow> request \<Rightarrow> nat \<Rightarrow> string option \<Rightarrow> string option \<Rightarrow> response" where
  "GET_exam x d req examId includeQuestionsParam includeAnswersParam =
     (let includeQuestions = (includeQuestionsParam = Some ''true'');
          includeAnswers = (includeAnswersParam = Some ''true'')
      in case request_user x d req of
           None \<Rightarrow> json 401 False ''Authentication required'' NoData
         | Some u \<Rightarrow>
             (case findExamById d examId of
                None \<Rightarrow> json 404 False ''Exam not found'' NoData
              | Some exam \<Rightarrow>
                  if \<not> canAccessExam u (Some (e_teacherId exam))
                  then json 403 False ''Unauthorized to access this exam'' NoData
                  else if includeQuestions
                  then
                    (case (if u_role u = Student \<and> \<not> includeAnswers
                           then those (map (student_view x) (findByExam d examId))
                           else those (map (full_view x) (findByExam d examId))) of
                       None \<Rightarrow> json 500 False ''Failed to retrieve exam'' NoData
                     | Some qs \<Rightarrow>
                         json 200 True ''Exam retrieved successfully'' (ExamData exam (Some qs)))
                  else json 200 True ''Exam retrieved successfully'' (ExamData exam None)))"

text \<open>
  Comparison of two dates, \<^verbatim>\<open>a < b\<close>: false when either is invalid.
\<close>

definition date_lt :: "int option \<Rightarrow> int option \<Rightarrow> bool" where
  "date_lt a b = (case a of None \<Rightarrow> False | Some m \<Rightarrow> (case b of None \<Rightarrow> False | Some n \<Rightarrow> m < n))"

text \<open>
  \<^verbatim>\<open>examQuestions.sort(() => Math.random() - 0.5)\<close> reorders the array by the random
  numbers drawn; \<open>rnd\<close> is that source, and every order can come out.
\<close>

fun shuffle :: "nat list \<Rightarrow> 'a list \<Rightarrow> 'a list" where
  "shuffle rnd [] = []"
| "shuffle [] (v # vs) = v # vs"
| "shuffle (r # rnd) (v # vs) =
     (let ws = shuffle rnd vs; k = r mod Suc (length ws) in take k ws @ v # drop k ws)"

text \<open>
  POST, lines 89 to 147: the checks that precede the insert. \<open>Inl\<close> is the response of a
  failed check, \<open>Inr\<close> the user and the exam with which the handler goes on.
\<close>

definition start_check ::
  "ext \<Rightarrow> db \<Rightarrow> request \<Rightarrow> nat \<Rightarrow> int \<Rightarrow> response + (identity \<times> exam)" where
  "start_check x d req examId now =
     (case request_user x d req of
        None \<Rightarrow> Inl (json 403 False ''Student access required'' NoData)
      | Some u \<Rightarrow>
          if u_role u \<noteq> Student then Inl (json 403 False ''Student access required'' NoData)
          else
            (case findExamById d examId of
               None \<Rightarrow> Inl (json 404 False ''Exam not found'' NoData)
             | Some exam \<Rightarrow>
                 if \<not> e_isActive exam
                 then Inl (json 400 False ''This exam is not active'' NoData)
                 else if date_lt (Some now) (e_startTime exam)
                 then Inl (json 400 False ''Exam has not started yet'' NoData)
                 else if date_lt (e_endTime exam) (Some now)
                 then Inl (json 400 False ''Exam has ended'' NoData)
                 else
                   (case findByStudentAndExam d (u_id u) examId of
                      Some existingAttempt \<Rightarrow>
                        Inl (json 400 False ''You have already taken this exam''
                               (ExistingAttempt (a_id existingAttempt)))
                    | None \<Rightarrow> Inr (u, exam))))"

text \<open>
  POST, lines 149 to 198: the insert and the response. The row is in the store when
  \<^verbatim>\<open>JSON.parse\<close> throws afterwards.
\<close>

definition start_insert ::
  "ext \<Rightarrow> db \<Rightarrow> request \<Rightarrow> identity \<Rightarrow> exam \<Rightarrow> nat \<Rightarrow> int \<Rightarrow> nat list \<Rightarrow> response \<times> db" where
  "start_insert x d req u exam examId now rnd =
     (let clientIP = the (js_or (js_or (ip req) (x_forwarded_for req)) (Some ''unknown''));
          userAgent = the (js_or (user_agent req) (Some ''unknown''));
          (attemptId, d1) = createAttempt d examId (u_id u) now clientIP userAgent
      in case those (map (student_view x) (findByExam d1 examId)) of
           None \<Rightarrow> (json 500 False ''Failed to start exam'' NoData, d1)
         | Some examQuestions \<Rightarrow>
             (json 200 True ''Exam attempt started successfully''
                (AttemptStarted attemptId
                   \<lparr>es_id = e_id exam, es_title = e_title exam,
                    es_description = e_description exam, es_duration = e_duration exam,
                    es_totalQuestions = e_totalQuestions exam\<rparr>
                   (if e_shuffleQuestions exam then shuffle rnd examQuestions else examQuestions)
                   now),
              d1))"

definition POST_exam ::
  "ext \<Rightarrow> db \<Rightarrow> request \<Rightarrow> nat \<Rightarrow> int \<Rightarrow> nat list \<Rightarrow> response \<times> db" where
  "POST_exam x d req examId now rnd =
     (case start_check x d req examId now of
        Inl r \<Rightarrow> (r, d)
      | Inr (u, exam) \<Rightarrow> start_insert x d req u exam examId now rnd)"

text \<open>The body of a submission; a field that the JSON lacks is \<open>None\<close>.\<close>

record submit_body =
  sb_attemptId :: "nat option"
  sb_answers :: "(nat \<Rightarrow> jsval option) option"
  sb_timeSpent :: "int option"

text \<open>The five counters of the scoring loop.\<close>

record tally =
  t_totalScore :: int
  t_totalPoints :: int
  t_correctAnswers :: nat
  t_wrongAnswers :: nat
  t_skippedAnswers :: nat

text \<open>
  The write statements of a submission. The handler issues them one by one, outside any
  transaction, and \<^verbatim>\<open>run\<close> may throw: \<open>fault w\<close> says that the store fails on \<open>w\<close>.
\<close>

datatype write_stmt = CreateAnswer nat | UpdateAttempt | CreateResult

text \<open>
  The loop of lines 261 to 292. It returns no tally when a statement throws
  (\<^verbatim>\<open>toString\<close> of null, the binding of a parameter, or the store); the rows written
  before stay.
\<close>

fun score_loop ::
  "(write_stmt \<Rightarrow> bool) \<Rightarrow> nat \<Rightarrow> (nat \<Rightarrow> jsval option) \<Rightarrow> question list \<Rightarrow> tally \<Rightarrow> db
     \<Rightarrow> tally option \<times> db" where
  "score_loop fault attemptId answers [] t d = (Some t, d)"
| "score_loop fault attemptId answers (q # qs) t d =
     (let t1 = t\<lparr>t_totalPoints := t_totalPoints t + q_points q\<rparr>;
          studentAnswer = answers (q_id q)
      in if studentAnswer = None \<or> studentAnswer = Some (JString [])
         then
           (if fault (CreateAnswer (q_id q)) then (None, d)
            else
              (case createAnswer d attemptId (q_id q) [] False 0 0 of
                 Inl err \<Rightarrow> (None, d)
               | Inr d1 \<Rightarrow>
                   score_loop fault attemptId answers qs
                     (t1\<lparr>t_skippedAnswers := Suc (t_skippedAnswers t1)\<rparr>) d1))
         else
           (case toString (the studentAnswer) of
              None \<Rightarrow> (None, d)
            | Some s \<Rightarrow>
                (let isCorrect = (s = q_correctAnswer q);
                     pointsEarned = (if isCorrect then q_points q else 0);
                     t2 = t1\<lparr>t_totalScore := t_totalScore t1 + pointsEarned,
                             t_correctAnswers :=
                               (if isCorrect then Suc (t_correctAnswers t1)
                                else t_correctAnswers t1),
                             t_wrongAnswers :=
                               (if isCorrect then t_wrongAnswers t1
                                else Suc (t_wrongAnswers t1))\<rparr>
                 in if fault (CreateAnswer (q_id q)) then (None, d)
                    else
                      (case createAnswer d attemptId (q_id q) s isCorrect pointsEarned 0 of
                         Inl err \<Rightarrow> (None, d)
                       | Inr d1 \<Rightarrow> score_loop fault attemptId answers qs t2 d1))))"

text \<open>Line 294: \<^verbatim>\<open>totalPoints > 0 ? (totalScore / totalPoints) * 100 : 0\<close>\<close>

definition percentage_of :: "int \<Rightarrow> int \<Rightarrow> rat" where
  "percentage_of totalScore totalPoints =
     (if totalPoints > 0 then js_mul (js_div (of_int totalScore) (of_int totalPoints)) 100
      else 0)"

definition getGrade :: "rat \<Rightarrow> string" where
  "getGrade percentage =
     (if percentage \<ge> 90 then ''A''
      else if percentage \<ge> 80 then ''B''
      else if percentage \<ge> 70 then ''C''
      else if percentage \<ge> 60 then ''D''
      else ''E'')"

definition feedback_of :: "bool \<Rightarrow> string" where
  "feedback_of passed =
     (if passed then ''Selamat! Anda lulus ujian ini.''
      else ''Maaf, Anda belum lulus ujian ini. Silakan belajar lebih giat.'')"

text \<open>The row that lines 311 to 325 hand to \<^verbatim>\<open>createResult\<close>; the store gives the id.\<close>

definition result_row ::
  "identity \<Rightarrow> nat \<Rightarrow> nat \<Rightarrow> int \<Rightarrow> tally \<Rightarrow> rat \<Rightarrow> string \<Rightarrow> bool \<Rightarrow> result" where
  "result_row u examId attemptId timeSpent t percentage grade passed =
     \<lparr>r_id = 0, r_attemptId = attemptId, r_studentId = u_id u, r_examId = examId,
      r_score = t_totalScore t, r_totalPoints = t_totalPoints t, r_percentage = percentage,
      r_grade = grade, r_passed = passed, r_completionTime = timeSpent,
      r_correctAnswers = t_correctAnswers t, r_wrongAnswers = t_wrongAnswers t,
      r_skippedAnswers = t_skippedAnswers t, r_feedback = feedback_of passed\<rparr>"

text \<open>
  Lines 294 to 341: the attempt is updated, then the result is inserted, then the
  response is built. A throw leaves what was written before it.
\<close>

definition finish_submit ::
  "(write_stmt \<Rightarrow> bool) \<Rightarrow> db \<Rightarrow> identity \<Rightarrow> nat \<Rightarrow> exam option \<Rightarrow> nat \<Rightarrow> int \<Rightarrow> int \<Rightarrow> tally
     \<Rightarrow> response \<times> db" where
  "finish_submit fault d1 u examId exam attemptId timeSpent now t =
     (let percentage = percentage_of (t_totalScore t) (t_totalPoints t) in
      case exam of
        None \<Rightarrow> (json 500 False ''Failed to submit exam'' NoData, d1)
      | Some e \<Rightarrow>
          (let passed = (percentage \<ge> of_int (e_passingScore e));
               grade = getGrade percentage
           in if fault UpdateAttempt then (json 500 False ''Failed to submit exam'' NoData, d1)
              else
                (let d2 = updateAttempt d1 now Completed (t_totalScore t) (t_totalPoints t)
                            percentage timeSpent attemptId
                 in if fault CreateResult
                    then (json 500 False ''Failed to submit exam'' NoData, d2)
                    else
                      (case createResult d2
                              (result_row u examId attemptId timeSpent t percentage grade
                                 passed) of
                         Inl err \<Rightarrow> (json 500 False ''Failed to submit exam'' NoData, d2)
                       | Inr (resultId, d3) \<Rightarrow>
                           (json 200 True ''Exam submitted successfully''
                              (Submitted
                                 \<lparr>sd_resultId = resultId, sd_score = t_totalScore t,
                                  sd_totalPoints = t_totalPoints t,
                                  sd_percentage =
                                    js_div (of_int (Math_round (js_mul percentage 100))) 100,
                                  sd_grade = grade, sd_passed = passed,
                                  sd_correctAnswers = t_correctAnswers t,
                                  sd_wrongAnswers = t_wrongAnswers t,
                                  sd_skippedAnswers = t_skippedAnswers t\<rparr>),
                            d3)))))"

text \<open>PUT: the checks of lines 210 to 252, then the loop, then the writes.\<close>

definition PUT_exam ::
  "ext \<Rightarrow> (write_stmt \<Rightarrow> bool) \<Rightarrow> db \<Rightarrow> request \<Rightarrow> nat \<Rightarrow> submit_body \<Rightarrow> int
     \<Rightarrow> response \<times> db" where
  "PUT_exam x fault d req examId body now =
     (case request_user x d req of
        None \<Rightarrow> (json 403 False ''Student access required'' NoData, d)
      | Some u \<Rightarrow>
          if u_role u \<noteq> Student then (json 403 False ''Student access required'' NoData, d)
          else if sb_attemptId body = None \<or> sb_attemptId body = Some 0 \<or> sb_answers body = None
          then (json 400 False ''Attempt ID and answers are required'' NoData, d)
          else
            (let attemptId = the (sb_attemptId body); answers = the (sb_answers body) in
             case findAttemptById d attemptId of
               None \<Rightarrow> (json 400 False ''Invalid attempt'' NoData, d)
             | Some attempt \<Rightarrow>
                 if a_studentId attempt \<noteq> u_id u \<or> a_examId attempt \<noteq> examId
                 then (json 400 False ''Invalid attempt'' NoData, d)
                 else if a_status attempt \<noteq> In_progress
                 then (json 400 False ''Attempt already completed'' NoData, d)
                 else
                   (case score_loop fault attemptId answers (findByExam d examId)
                           \<lparr>t_totalScore = 0, t_totalPoints = 0, t_correctAnswers = 0,
                            t_wrongAnswers = 0, t_skippedAnswers = 0\<rparr> d of
                      (None, d1) \<Rightarrow> (json 500 False ''Failed to submit exam'' NoData, d1)
                    | (Some t, d1) \<Rightarrow>
                        finish_submit fault d1 u examId (findExamById d examId) attemptId
                          (case sb_timeSpent body of None \<Rightarrow> 0 | Some n \<Rightarrow> n) now t)))"

section \<open>Properties of the store and runs of the handlers\<close>

text \<open>The response by which POST turns a second start away.\<close>

definition already_taken :: "response \<Rightarrow> bool" where
  "already_taken r = (\<not> success r \<and> message r = ''You have already taken this exam'')"

text \<open>The attempts of a student for an exam, whatever their status.\<close>

definition attempts_of :: "db \<Rightarrow> nat \<Rightarrow> nat \<Rightarrow> attempt list" where
  "attempts_of d sid eid =
     filter (\<lambda>a. a_studentId a = sid \<and> a_examId a = eid) (exam_attempts d)"

text \<open>
  The specification's notion: the attempts of the pair that are neither abandoned nor
  timed out.
\<close>

definition non_abandoned_attempts_of :: "db \<Rightarrow> nat \<Rightarrow> nat \<Rightarrow> attempt list" where
  "non_abandoned_attempts_of d sid eid =
     filter (\<lambda>a. a_status a \<noteq> Abandoned \<and> a_status a \<noteq> Time_out) (attempts_of d sid eid)"

text \<open>The row that a start inserts.\<close>

definition new_attempt :: "db \<Rightarrow> nat \<Rightarrow> nat \<Rightarrow> int \<Rightarrow> request \<Rightarrow> attempt" where
  "new_attempt d eid sid now req =
     \<lparr>a_id = next_rowid (seq_attempts d) (map a_id (exam_attempts d)), a_examId = eid,
      a_studentId = sid, a_startTime = now, a_endTime = None, a_status = In_progress,
      a_score = None, a_totalPoints = None, a_percentage = None, a_timeSpent = 0,
      a_ipAddress = the (js_or (js_or (ip req) (x_forwarded_for req)) (Some ''unknown'')),
      a_userAgent = the (js_or (user_agent req) (Some ''unknown''))\<rparr>"

text \<open>
  Start requests for one exam handled one after the other, each on the store the one
  before left: the request, its clock and its random numbers.
\<close>

fun run_starts ::
  "ext \<Rightarrow> db \<Rightarrow> nat \<Rightarrow> (request \<times> int \<times> nat list) list \<Rightarrow> response list \<times> db" where
  "run_starts x d examId [] = ([], d)"
| "run_starts x d examId ((req, now, rnd) # rest) =
     (let (r, d1) = POST_exam x d req examId now rnd;
          (rs, d2) = run_starts x d1 examId rest
      in (r # rs, d2))"

definition omits_answer_key :: "question_view list \<Rightarrow> bool" where
  "omits_answer_key qs = list_all (\<lambda>q. qv_correctAnswer q = None) qs"

definition carries_answer_key :: "question_view list \<Rightarrow> bool" where
  "carries_answer_key qs = list_all (\<lambda>q. qv_correctAnswer q \<noteq> None) qs"

text \<open>
  The requests that write to the store. The handlers of \<^verbatim>\<open>app/api/exams/route.ts\<close>
  write to the table \<^verbatim>\<open>exams\<close> only, and questions are written elsewhere: \<open>Catalog\<close>
  stands for any such write, giving the tables their new content.
\<close>

datatype event =
  Start request nat int "nat list"
  | Submit "write_stmt \<Rightarrow> bool" request nat submit_body int
  | Auth request auth_body
  | Catalog "exam list" "question list"

fun step :: "ext \<Rightarrow> db \<Rightarrow> event \<Rightarrow> db" where
  "step x d (Start req examId now rnd) = snd (POST_exam x d req examId now rnd)"
| "step x d (Submit fault req examId body now) = snd (PUT_exam x fault d req examId body now)"
| "step x d (Auth req body) = snd (POST_auth x d req body)"
| "step x d (Catalog es qs) = d\<lparr>exams := es, questions := qs\<rparr>"

definition run :: "ext \<Rightarrow> db \<Rightarrow> event list \<Rightarrow> db" where
  "run x d evs = foldl (step x) d evs"


text \<open>The store fails on no statement.\<close>

definition no_fault :: "write_stmt \<Rightarrow> bool" where
  "no_fault w = False"


text \<open>The questions that a response carries.\<close>

fun questions_in :: "response \<Rightarrow> question_view list" where
  "questions_in r =
     (case payload r of
        ExamData e (Some qs) \<Rightarrow> qs
      | AttemptStarted i s qs t \<Rightarrow> qs
      | _ \<Rightarrow> [])"

section \<open>A sample store\<close>

text \<open>
  Stand-ins for the libraries, a student and a teacher, and one exam with a pass mark of
  57 and two questions worth 57 and 43 points, open from time 0 to time 1000.
\<close>

definition ext0 :: ext where
  "ext0 =
     \<lparr>jwt_sign = (\<lambda>p. ''tok-'' @ p_username p),
      jwt_verify =
        (\<lambda>t. if t = ''tok-siswa1''
              then Some \<lparr>p_userId = 1, p_username = ''siswa1'', p_role = Student\<rparr>
              else if t = ''tok-teacher1''
              then Some \<lparr>p_userId = 2, p_username = ''teacher1'', p_role = Teacher\<rparr>
              else None),
      bcrypt_hash = (\<lambda>pw. ''hash:'' @ pw),
      bcrypt_compare = (\<lambda>pw h. h = ''hash:'' @ pw),
      JSON_parse = (\<lambda>s. if s = ''[]'' then Some [] else None)\<rparr>"

definition siswa1 :: user where
  "siswa1 =
     \<lparr>u_id = 1, u_username = ''siswa1'', u_email = ''siswa1@school.com'', u_role = Student,
      u_fullName = ''Andi Wijaya'', u_class = Some ''10A'', u_subject = None,
      u_password = ''hash:student123''\<rparr>"

definition teacher1 :: user where
  "teacher1 =
     \<lparr>u_id = 2, u_username = ''teacher1'', u_email = ''teacher@school.com'', u_role = Teacher,
      u_fullName = ''Budi Santoso'', u_class = None, u_subject = Some ''Matematika'',
      u_password = ''hash:teacher123''\<rparr>"

definition exam1 :: exam where
  "exam1 =
     \<lparr>e_id = 1, e_title = ''Aljabar'', e_description = [], e_subject = ''Matematika'',
      e_teacherId = 2, e_duration = 90, e_totalQuestions = 2, e_passingScore = 57,
      e_startTime = Some 0, e_endTime = Some 1000, e_isActive = True, e_allowReview = True,
      e_shuffleQuestions = False\<rparr>"

definition question1 :: question where
  "question1 =
     \<lparr>q_id = 1, q_examId = 1, q_questionText = ''2x + 3 = 9'',
      q_questionType = Multiple_choice, q_options = Some ''[]'', q_correctAnswer = ''1'',
      q_points = 57, q_explanation = None, q_imageUrl = None, q_order = 1\<rparr>"

definition question2 :: question where
  "question2 =
     \<lparr>q_id = 2, q_examId = 1, q_questionText = ''3x + 2x'',
      q_questionType = Multiple_choice, q_options = None, q_correctAnswer = ''0'',
      q_points = 43, q_explanation = None, q_imageUrl = None, q_order = 2\<rparr>"

definition db0 :: db where
  "db0 =
     \<lparr>users = [siswa1, teacher1], exams = [exam1], questions = [question1, question2],
      exam_attempts = [], exam_answers = [], exam_results = [],
      seq_users = 2, seq_attempts = 0, seq_answers = 0, seq_results = 0\<rparr>"

text \<open>The attempt of the student for the exam, in a given status.\<close>

definition attempt1 :: "attemptStatus \<Rightarrow> attempt" where
  "attempt1 st =
     \<lparr>a_id = 1, a_examId = 1, a_studentId = 1, a_startTime = 100, a_endTime = None,
      a_status = st, a_score = None, a_totalPoints = None, a_percentage = None,
      a_timeSpent = 0, a_ipAddress = ''unknown'', a_userAgent = ''unknown''\<rparr>"

definition db_with :: "attemptStatus \<Rightarrow> db" where
  "db_with st = db0\<lparr>exam_attempts := [attempt1 st], seq_attempts := 1\<rparr>"

definition req_student :: request where
  "req_student =
     \<lparr>authorization = Some ''Bearer tok-siswa1'', auth_cookie = None, ip = None,
      x_forwarded_for = None, user_agent = None\<rparr>"


text \<open>The first question answered rightly, the second wrongly: 57 points of 100.\<close>

definition body57 :: submit_body where
  "body57 =
     \<lparr>sb_attemptId = Some 1,
      sb_answers = Some ((\<lambda>k. None)(1 := Some (JString ''1''), 2 := Some (JString ''1''))),
      sb_timeSpent = Some 60\<rparr>"


text \<open>Three starts of the student, one after the other.\<close>

definition three_starts :: "(request \<times> int \<times> nat list) list" where
  "three_starts = [(req_student, 500, []), (req_student, 501, []), (req_student, 502, [])]"




text \<open>The same store when the exam does not allow review.\<close>

definition db_no_review :: db where
  "db_no_review = db0\<lparr>exams := [exam1\<lparr>e_allowReview := False\<rparr>]\<rparr>"

section \<open>Row ids\<close>




lemma find_snoc:
  "find P (xs @ [y]) =
     (case find P xs of None \<Rightarrow> (if P y then Some y else None) | Some v \<Rightarrow> Some v)"
  by (induction xs) simp_all

section \<open>Question views\<close>

lemma those_student_view:
  "those (map (student_view x) qs) = Some vs \<Longrightarrow> omits_answer_key vs"
proof (induction qs arbitrary: vs)
  case Nil
  then show ?case by (simp add: omits_answer_key_def)
next
  case (Cons q qs)
  then show ?case
    by (auto simp: omits_answer_key_def student_view_def split: option.splits)
qed

lemma those_full_view:
  "those (map (full_view x) qs) = Some vs \<Longrightarrow> carries_answer_key vs"
proof (induction qs arbitrary: vs)
  case Nil
  then show ?case by (simp add: carries_answer_key_def)
next
  case (Cons q qs)
  then show ?case
    by (auto simp: carries_answer_key_def full_view_def split: option.splits)
qed

lemma carries_nil: "carries_answer_key []"
  by (simp add: carries_answer_key_def)

lemma set_shuffle: "set (shuffle rnd vs) = set vs"
proof (induction rnd vs rule: shuffle.induct)
  case (3 r rnd v vs)
  let ?ws = "shuffle rnd vs"
  let ?k = "r mod Suc (length ?ws)"
  have "set (take ?k ?ws) \<union> set (drop ?k ?ws) = set (take ?k ?ws @ drop ?k ?ws)"
    by (rule set_append [symmetric])
  also have "\<dots> = set ?ws"
    by (simp only: append_take_drop_id)
  finally show ?case
    using "3.IH" by (simp add: Let_def)
qed simp_all

lemma omits_shuffle: "omits_answer_key (shuffle rnd vs) = omits_answer_key vs"
  by (simp add: omits_answer_key_def list_all_iff set_shuffle)

section \<open>Starting an attempt\<close>

lemma find_attempt_None:
  "(findByStudentAndExam d sid eid = None) = (attempts_of d sid eid = [])"
  by (auto simp: findByStudentAndExam_def attempts_of_def find_None_iff filter_empty_conv)

lemma findByExam_attempts [simp]:
  "findByExam (d\<lparr>exam_attempts := as, seq_attempts := n\<rparr>) i = findByExam d i"
  by (simp add: findByExam_def)

lemma start_insert_store:
  "snd (start_insert x d req u e examId now rnd) =
     d\<lparr>exam_attempts := exam_attempts d @ [new_attempt d examId (u_id u) now req],
       seq_attempts := next_rowid (seq_attempts d) (map a_id (exam_attempts d))\<rparr>"
  by (simp add: start_insert_def createAttempt_def new_attempt_def Let_def
      split: option.splits)

lemma start_insert_response:
  "\<not> already_taken (fst (start_insert x d req u e examId now rnd))"
  "those (map (student_view x) (findByExam d examId)) \<noteq> None \<Longrightarrow>
     success (fst (start_insert x d req u e examId now rnd))"
  by (auto simp: start_insert_def createAttempt_def already_taken_def json_def Let_def
      split: option.splits)

lemma omits_nil: "omits_answer_key []"
  by (simp add: omits_answer_key_def)

lemma start_insert_questions:
  "omits_answer_key (questions_in (fst (start_insert x d req u e examId now rnd)))"
  by (auto simp: start_insert_def createAttempt_def json_def Let_def omits_shuffle omits_nil
      dest: those_student_view split: option.splits)

lemma start_check_questions:
  "start_check x d req examId now = Inl r \<Longrightarrow> questions_in r = []"
  by (auto simp: start_check_def json_def split: option.splits if_splits)

lemma POST_exam_taken:
  assumes "request_user x d req = Some u" and "u_role u = Student"
    and "findExamById d examId = Some e" and "e_isActive e"
    and "e_startTime e = Some s" and "s \<le> now" and "e_endTime e = Some t" and "now \<le> t"
    and "findByStudentAndExam d (u_id u) examId = Some a"
  shows "POST_exam x d req examId now rnd =
           (json 400 False ''You have already taken this exam'' (ExistingAttempt (a_id a)), d)"
  using assms by (simp add: POST_exam_def start_check_def date_lt_def)

lemma POST_exam_fresh:
  assumes "request_user x d req = Some u" and "u_role u = Student"
    and "findExamById d examId = Some e" and "e_isActive e"
    and "e_startTime e = Some s" and "s \<le> now" and "e_endTime e = Some t" and "now \<le> t"
    and "findByStudentAndExam d (u_id u) examId = None"
  shows "POST_exam x d req examId now rnd = start_insert x d req u e examId now rnd"
  using assms by (simp add: POST_exam_def start_check_def date_lt_def)

text \<open>
  Claim C1, as the code has it. For a start by a student, for an exam that exists, is
  active and whose window holds the current time: the start is turned away as already
  taken exactly when the store holds an attempt of the student for the exam, whatever its
  status, and then the store is left as it was; when there is none, a new attempt in
  progress is appended, and the start succeeds when the stored options of the questions
  parse.
\<close>

theorem start_conflict_iff_any_attempt:
  assumes "request_user x d req = Some u" and "u_role u = Student"
    and "findExamById d examId = Some e" and "e_isActive e"
    and "e_startTime e = Some s" and "s \<le> now" and "e_endTime e = Some t" and "now \<le> t"
  shows "(already_taken (fst (POST_exam x d req examId now rnd)) \<longleftrightarrow>
            attempts_of d (u_id u) examId \<noteq> []) \<and>
         (attempts_of d (u_id u) examId \<noteq> [] \<longrightarrow>
            snd (POST_exam x d req examId now rnd) = d) \<and>
         (attempts_of d (u_id u) examId = [] \<longrightarrow>
            exam_attempts (snd (POST_exam x d req examId now rnd)) =
              exam_attempts d @ [new_attempt d examId (u_id u) now req] \<and>
            (those (map (student_view x) (findByExam d examId)) \<noteq> None \<longrightarrow>
               success (fst (POST_exam x d req examId now rnd))))"
proof (cases "findByStudentAndExam d (u_id u) examId")
  case None
  then have empty: "attempts_of d (u_id u) examId = []"
    by (simp add: find_attempt_None)
  have eq: "POST_exam x d req examId now rnd = start_insert x d req u e examId now rnd"
    using assms None by (rule POST_exam_fresh)
  show ?thesis
    by (simp add: eq empty start_insert_store start_insert_response)
next
  case (Some a)
  then have nonempty: "attempts_of d (u_id u) examId \<noteq> []"
    using find_attempt_None [of d "u_id u" examId] by simp
  have eq: "POST_exam x d req examId now rnd =
      (json 400 False ''You have already taken this exam'' (ExistingAttempt (a_id a)), d)"
    using assms Some by (rule POST_exam_taken)
  show ?thesis
    by (simp add: eq nonempty already_taken_def json_def)
qed


theorem start_conflict_iff_any_attempt_witness:
  "success (fst (POST_exam ext0 db0 req_student 1 500 [])) \<and>
   \<not> already_taken (fst (POST_exam ext0 db0 req_student 1 500 [])) \<and>
   map a_status (exam_attempts (snd (POST_exam ext0 db0 req_student 1 500 []))) =
     [In_progress] \<and>
   already_taken (fst (POST_exam ext0 (db_with In_progress) req_student 1 500 [])) \<and>
   snd (POST_exam ext0 (db_with In_progress) req_student 1 500 []) = db_with In_progress"
proof -
  have u: "request_user ext0 db0 req_student = Some (userWithoutPassword siswa1)"
    "request_user ext0 (db_with In_progress) req_student = Some (userWithoutPassword siswa1)"
    by code_simp+
  have r: "u_role (userWithoutPassword siswa1) = Student" by code_simp
  have e: "findExamById db0 1 = Some exam1" "findExamById (db_with In_progress) 1 = Some exam1"
    by code_simp+
  have a: "e_isActive exam1" by code_simp
  have s: "e_startTime exam1 = Some 0" by code_simp
  have t: "e_endTime exam1 = Some 1000" by code_simp
  have w: "(0::int) \<le> 500" "(500::int) \<le> 1000" by simp_all
  have none: "attempts_of db0 (u_id (userWithoutPassword siswa1)) 1 = []" by code_simp
  have some: "attempts_of (db_with In_progress) (u_id (userWithoutPassword siswa1)) 1 \<noteq> []"
    by code_simp
  have p: "those (map (student_view ext0) (findByExam db0 1)) \<noteq> None" by code_simp
  have n: "a_status (new_attempt db0 1 (u_id (userWithoutPassword siswa1)) 500 req_student) =
      In_progress"
    by (simp add: new_attempt_def)
  have d: "exam_attempts db0 = []" by code_simp
  from start_conflict_iff_any_attempt [OF u(1) r e(1) a s w(1) t w(2), of "[]"]
    start_conflict_iff_any_attempt [OF u(2) r e(2) a s w(1) t w(2), of "[]"]
  show ?thesis
    by (simp add: none some p n d del: One_nat_def)
qed

text \<open>
  Claim C1 as stated fails: the only attempt of the student for the exam is abandoned,
  the exam is active and open, and the start is turned away as already taken, with no
  attempt created.
\<close>

theorem abandoned_attempt_blocks_start:
  "map_option u_role (request_user ext0 (db_with Abandoned) req_student) = Some Student \<and>
   map_option e_isActive (findExamById (db_with Abandoned) 1) = Some True \<and>
   map_option e_startTime (findExamById (db_with Abandoned) 1) = Some (Some 0) \<and>
   map_option e_endTime (findExamById (db_with Abandoned) 1) = Some (Some 1000) \<and>
   non_abandoned_attempts_of (db_with Abandoned) 1 1 = [] \<and>
   already_taken (fst (POST_exam ext0 (db_with Abandoned) req_student 1 500 [])) \<and>
   snd (POST_exam ext0 (db_with Abandoned) req_student 1 500 []) = db_with Abandoned"
  by code_simp

section \<open>The answer key in responses\<close>

text \<open>
  Every question in the response to a start omits the correct answer. In the response to
  a GET by a student the questions omit it when the query does not say
  \<^verbatim>\<open>includeAnswers=true\<close>, and all carry it when the query does: no field of the exam
  and no attempt of the student is consulted.
\<close>

theorem answer_key_by_request:
  "omits_answer_key (questions_in (fst (POST_exam x d req examId now rnd))) \<and>
   (request_user x d req = Some u \<and> u_role u = Student \<and>
      includeAnswersParam \<noteq> Some ''true'' \<longrightarrow>
      omits_answer_key
        (questions_in (GET_exam x d req examId includeQuestionsParam includeAnswersParam))) \<and>
   (request_user x d req = Some u \<and> u_role u = Student \<and>
      includeAnswersParam = Some ''true'' \<longrightarrow>
      carries_answer_key
        (questions_in (GET_exam x d req examId includeQuestionsParam includeAnswersParam)))"
proof (intro conjI impI)
  show "omits_answer_key (questions_in (fst (POST_exam x d req examId now rnd)))"
  proof (cases "start_check x d req examId now")
    case (Inl r)
    then show ?thesis
      using start_check_questions [OF Inl]
      by (simp add: POST_exam_def omits_nil del: questions_in.simps)
  next
    case (Inr p)
    then show ?thesis
      by (cases p) (simp add: POST_exam_def start_insert_questions del: questions_in.simps)
  qed
next
  assume "request_user x d req = Some u \<and> u_role u = Student \<and>
    includeAnswersParam \<noteq> Some ''true''"
  then show "omits_answer_key
      (questions_in (GET_exam x d req examId includeQuestionsParam includeAnswersParam))"
    by (auto simp: GET_exam_def json_def omits_nil dest: those_student_view
        split: option.splits)
next
  assume "request_user x d req = Some u \<and> u_role u = Student \<and>
    includeAnswersParam = Some ''true''"
  then show "carries_answer_key
      (questions_in (GET_exam x d req examId includeQuestionsParam includeAnswersParam))"
    by (auto simp: GET_exam_def json_def carries_nil dest: those_full_view
        split: option.splits)
qed



theorem answer_key_by_request_witness:
  "omits_answer_key (questions_in (fst (POST_exam ext0 db0 req_student 1 500 []))) \<and>
   length (questions_in (fst (POST_exam ext0 db0 req_student 1 500 []))) = 2 \<and>
   omits_answer_key (questions_in (GET_exam ext0 db0 req_student 1 (Some ''true'') None)) \<and>
   length (questions_in (GET_exam ext0 db0 req_student 1 (Some ''true'') None)) = 2 \<and>
   carries_answer_key
     (questions_in (GET_exam ext0 db0 req_student 1 (Some ''true'') (Some ''true'')))"
proof -
  have u: "request_user ext0 db0 req_student = Some (userWithoutPassword siswa1)"
    by code_simp
  have r: "u_role (userWithoutPassword siswa1) = Student" by code_simp
  have l: "length (questions_in (fst (POST_exam ext0 db0 req_student 1 500 []))) = 2"
    "length (questions_in (GET_exam ext0 db0 req_student 1 (Some ''true'') None)) = 2"
    by code_simp+
  have off: "(None :: string option) \<noteq> Some ''true''" by simp
  from answer_key_by_request [where x = ext0 and d = db0 and req = req_student
      and examId = 1 and now = 500 and rnd = "[]" and u = "userWithoutPassword siswa1"
      and includeQuestionsParam = "Some ''true''" and includeAnswersParam = None]
    answer_key_by_request [where x = ext0 and d = db0 and req = req_student
      and examId = 1 and now = 500 and rnd = "[]" and u = "userWithoutPassword siswa1"
      and includeQuestionsParam = "Some ''true''" and includeAnswersParam = "Some ''true''"]
  show ?thesis
    using u r l off by simp
qed

text \<open>
  Claim C5 at a student who has no attempt, for an exam that does not allow review: the
  request for the questions with \<^verbatim>\<open>includeAnswers=true\<close> is answered with the correct
  answer of each question, where the claim has every question without it, regardless of
  any request parameter.
\<close>

theorem student_gets_answer_key:
  "map_option u_role (request_user ext0 db_no_review req_student) = Some Student \<and>
   map e_allowReview (exams db_no_review) = [False] \<and>
   exam_attempts db_no_review = [] \<and>
   map qv_correctAnswer
     (questions_in (GET_exam ext0 db_no_review req_student 1 (Some ''true'') (Some ''true''))) =
     [Some ''1'', Some ''0'']"
  by code_simp

theorem student_gets_answer_key_witness:
  "\<not> omits_answer_key
       (questions_in (GET_exam ext0 db_no_review req_student 1 (Some ''true'') (Some ''true'')))"
proof -
  let ?qs = "questions_in (GET_exam ext0 db_no_review req_student 1 (Some ''true'') (Some ''true''))"
  have key: "map qv_correctAnswer ?qs = [Some ''1'', Some ''0'']"
    using student_gets_answer_key by (simp del: questions_in.simps)
  have "omits_answer_key ?qs = list_all (\<lambda>v. v = None) (map qv_correctAnswer ?qs)"
    by (simp add: omits_answer_key_def list.pred_map comp_def del: questions_in.simps)
  also have "\<dots> = False" by (simp only: key) simp
  finally show ?thesis by simp
qed

section \<open>Starts handled one after the other\<close>

lemma request_user_users: "users d' = users d \<Longrightarrow> request_user x d' req = request_user x d req"
  by (simp add: request_user_def getUserFromToken_def findUserById_def Let_def
      cong: option.case_cong)

lemma run_starts_taken:
  assumes "u_role u = Student" and "findExamById d examId = Some e" and "e_isActive e"
    and "e_startTime e = Some s" and "e_endTime e = Some t"
    and "findByStudentAndExam d (u_id u) examId = Some a"
    and "list_all (\<lambda>(req, now, rnd). request_user x d req = Some u \<and> s \<le> now \<and> now \<le> t) reqs"
  shows "run_starts x d examId reqs =
           (map (\<lambda>p. json 400 False ''You have already taken this exam''
                        (ExistingAttempt (a_id a))) reqs, d)"
  using assms(7)
proof (induction reqs)
  case Nil
  show ?case by simp
next
  case (Cons p reqs)
  obtain req now rnd where p: "p = (req, now, rnd)" by (cases p) auto
  from Cons.prems p have u: "request_user x d req = Some u" and w: "s \<le> now" "now \<le> t"
    and rest: "list_all (\<lambda>(req, now, rnd). request_user x d req = Some u \<and> s \<le> now \<and> now \<le> t) reqs"
    by simp_all
  have "POST_exam x d req examId now rnd =
      (json 400 False ''You have already taken this exam'' (ExistingAttempt (a_id a)), d)"
    using u assms(1,2,3,4) w(1) assms(5) w(2) assms(6) by (rule POST_exam_taken)
  then show ?case using Cons.IH [OF rest] p by simp
qed

text \<open>
  Claim C3, as the code has it. The handler looks the attempt up and then inserts, in
  two statements, and the table has no uniqueness constraint. When the start requests of
  a student for an exam are handled one after the other, each on the store that the one
  before left, the first succeeds, every later one is turned away as already taken, and
  the store holds one attempt of the student for the exam.
\<close>

theorem sequential_starts_one_success:
  assumes "list_all (\<lambda>(req, now, rnd). request_user x d req = Some u \<and> s \<le> now \<and> now \<le> t) reqs"
    and "u_role u = Student" and "findExamById d examId = Some e" and "e_isActive e"
    and "e_startTime e = Some s" and "e_endTime e = Some t"
    and "attempts_of d (u_id u) examId = []"
    and "those (map (student_view x) (findByExam d examId)) \<noteq> None"
    and "reqs \<noteq> []"
  shows "success (hd (fst (run_starts x d examId reqs))) \<and>
         list_all already_taken (tl (fst (run_starts x d examId reqs))) \<and>
         length (fst (run_starts x d examId reqs)) = length reqs \<and>
         length (attempts_of (snd (run_starts x d examId reqs)) (u_id u) examId) = 1"
proof -
  from assms(9) obtain p rest where reqs: "reqs = p # rest" by (cases reqs) auto
  obtain req now rnd where p: "p = (req, now, rnd)" by (cases p) auto
  from assms(1) reqs p have u: "request_user x d req = Some u" and w: "s \<le> now" "now \<le> t"
    and rest: "list_all (\<lambda>(req, now, rnd). request_user x d req = Some u \<and> s \<le> now \<and> now \<le> t) rest"
    by simp_all
  let ?na = "new_attempt d examId (u_id u) now req"
  let ?d1 = "d\<lparr>exam_attempts := exam_attempts d @ [?na],
       seq_attempts := next_rowid (seq_attempts d) (map a_id (exam_attempts d))\<rparr>"
  let ?r = "fst (start_insert x d req u e examId now rnd)"
  have none: "findByStudentAndExam d (u_id u) examId = None"
    using assms(7) by (simp add: find_attempt_None)
  have "POST_exam x d req examId now rnd = start_insert x d req u e examId now rnd"
    using u assms(2,3,4,5) w(1) assms(6) w(2) none by (rule POST_exam_fresh)
  then have first: "POST_exam x d req examId now rnd = (?r, ?d1)"
    by (simp add: prod_eq_iff start_insert_store)
  have found: "findByStudentAndExam ?d1 (u_id u) examId = Some ?na"
    using none by (simp add: findByStudentAndExam_def find_snoc new_attempt_def)
  have same_user: "request_user x ?d1 req' = request_user x d req'" for req'
    by (rule request_user_users) simp
  have rest1: "list_all (\<lambda>(req, now, rnd). request_user x ?d1 req = Some u \<and> s \<le> now \<and> now \<le> t) rest"
    using rest by (simp only: same_user)
  have exam1: "findExamById ?d1 examId = Some e"
    using assms(3) by (simp add: findExamById_def)
  have later: "run_starts x ?d1 examId rest =
      (map (\<lambda>p. json 400 False ''You have already taken this exam''
                   (ExistingAttempt (a_id ?na))) rest, ?d1)"
    using assms(2) exam1 assms(4,5,6) found rest1 by (rule run_starts_taken)
  have all: "run_starts x d examId reqs =
      (?r # map (\<lambda>p. json 400 False ''You have already taken this exam''
                   (ExistingAttempt (a_id ?na))) rest, ?d1)"
    by (simp add: reqs p first later)
  have one: "attempts_of ?d1 (u_id u) examId = [?na]"
    using assms(7) by (simp add: attempts_of_def new_attempt_def)
  have ok: "success ?r"
    using assms(8) by (rule start_insert_response(2))
  show ?thesis
    unfolding all by (simp add: one ok reqs list_all_iff already_taken_def json_def)
qed


theorem sequential_starts_one_success_witness:
  "success (hd (fst (run_starts ext0 db0 1 three_starts))) \<and>
   list_all already_taken (tl (fst (run_starts ext0 db0 1 three_starts))) \<and>
   length (fst (run_starts ext0 db0 1 three_starts)) = 3 \<and>
   length (attempts_of (snd (run_starts ext0 db0 1 three_starts)) 1 1) = 1"
proof -
  have h1: "list_all (\<lambda>(req, now, rnd).
      request_user ext0 db0 req = Some (userWithoutPassword siswa1) \<and> 0 \<le> now \<and> now \<le> 1000)
      three_starts"
    by code_simp
  have h2: "u_role (userWithoutPassword siswa1) = Student" by code_simp
  have h3: "findExamById db0 1 = Some exam1" by code_simp
  have h4: "e_isActive exam1" by code_simp
  have h5: "e_startTime exam1 = Some 0" by code_simp
  have h6: "e_endTime exam1 = Some 1000" by code_simp
  have h7: "attempts_of db0 (u_id (userWithoutPassword siswa1)) 1 = []" by code_simp
  have h8: "those (map (student_view ext0) (findByExam db0 1)) \<noteq> None" by code_simp
  have h9: "three_starts \<noteq> []" by (simp add: three_starts_def)
  have i: "u_id (userWithoutPassword siswa1) = 1" by code_simp
  have l: "length three_starts = 3" by (simp add: three_starts_def)
  from sequential_starts_one_success [OF h1 h2 h3 h4 h5 h6 h7 h8 h9]
  show ?thesis
    by (simp only: i l)
qed

text \<open>
  Claim C3 as stated fails: the store does not enforce the rule. Two requests whose
  lookups both run on the store without an attempt both pass, both inserts succeed, and
  the store holds two attempts in progress of the student for the exam; and the insert
  statement alone adds a second attempt to a store that holds one.
\<close>

theorem two_lookups_then_two_inserts:
  "start_check ext0 db0 req_student 1 500 = Inr (userWithoutPassword siswa1, exam1) \<and>
   start_check ext0 db0 req_student 1 501 = Inr (userWithoutPassword siswa1, exam1) \<and>
   success (fst (start_insert ext0 db0 req_student (userWithoutPassword siswa1) exam1 1 500 [])) \<and>
   success
     (fst (start_insert ext0
        (snd (start_insert ext0 db0 req_student (userWithoutPassword siswa1) exam1 1 500 []))
        req_student (userWithoutPassword siswa1) exam1 1 501 [])) \<and>
   map a_status
     (non_abandoned_attempts_of
        (snd (start_insert ext0
           (snd (start_insert ext0 db0 req_student (userWithoutPassword siswa1) exam1 1 500 []))
           req_student (userWithoutPassword siswa1) exam1 1 501 [])) 1 1) =
     [In_progress, In_progress] \<and>
   map a_status
     (non_abandoned_attempts_of
        (snd (createAttempt (db_with In_progress) 1 1 500 ''unknown'' ''unknown'')) 1 1) =
     [In_progress, In_progress]"
  by code_simp

section \<open>Submissions\<close>

text \<open>
  Both inserts of a submission bind a JavaScript boolean, so both throw whatever the
  store holds.
\<close>

lemma createAnswer_throws: "createAnswer d aid qid ans isCorrect pts spent = Inl TypeError"
  by (simp add: createAnswer_def)

lemma createResult_throws: "createResult d r = Inl TypeError"
  by (simp add: createResult_def)

lemma score_loop_store: "snd (score_loop fault i ans qs t d) = d"
  by (cases qs) (simp_all add: Let_def createAnswer_throws split: option.splits)

lemma score_loop_throws: "qs \<noteq> [] \<Longrightarrow> fst (score_loop fault i ans qs t d) = None"
  by (cases qs) (simp_all add: Let_def createAnswer_throws split: option.splits)

lemma finish_submit_outcome:
  "fst (finish_submit fault d1 u examId exam i spent now t) =
     json 500 False ''Failed to submit exam'' NoData \<and>
   (snd (finish_submit fault d1 u examId exam i spent now t) = d1 \<or>
    snd (finish_submit fault d1 u examId exam i spent now t) =
      updateAttempt d1 now Completed (t_totalScore t) (t_totalPoints t)
        (percentage_of (t_totalScore t) (t_totalPoints t)) spent i)"
  by (simp add: finish_submit_def Let_def createResult_throws split: option.splits)

text \<open>
  No submission is answered with success, and none inserts a row: the store is left as
  it was, or with the attempt updated to completed.
\<close>

lemma PUT_exam_outcome:
  "\<not> success (fst (PUT_exam x fault d req examId body now)) \<and>
   (snd (PUT_exam x fault d req examId body now) = d \<or>
    (\<exists>sc tp pc sp i.
       snd (PUT_exam x fault d req examId body now) =
         updateAttempt d now Completed sc tp pc sp i))"
proof (cases "request_user x d req")
  case None
  then show ?thesis by (simp add: PUT_exam_def json_def)
next
  case (Some u)
  show ?thesis
  proof (cases "u_role u \<noteq> Student \<or> sb_attemptId body = None \<or> sb_attemptId body = Some 0 \<or>
      sb_answers body = None")
    case True
    then show ?thesis by (auto simp: PUT_exam_def Some json_def)
  next
    case False
    then obtain i ans where body: "sb_attemptId body = Some i" "sb_answers body = Some ans"
      and pre: "u_role u = Student" "i \<noteq> 0"
      by auto
    show ?thesis
    proof (cases "findAttemptById d i")
      case None
      then show ?thesis by (simp add: PUT_exam_def Some body pre json_def)
    next
      case found: (Some a0)
      show ?thesis
      proof (cases "a_studentId a0 \<noteq> u_id u \<or> a_examId a0 \<noteq> examId \<or>
          a_status a0 \<noteq> In_progress")
        case True
        then show ?thesis by (auto simp: PUT_exam_def Some body pre found json_def)
      next
        case False
        let ?t0 = "\<lparr>t_totalScore = 0, t_totalPoints = 0, t_correctAnswers = 0,
           t_wrongAnswers = 0, t_skippedAnswers = 0\<rparr>"
        let ?loop = "score_loop fault i ans (findByExam d examId) ?t0 d"
        obtain res d1 where loop: "?loop = (res, d1)" by (cases ?loop) auto
        have d1: "d1 = d"
          using score_loop_store [of fault i ans "findByExam d examId" ?t0 d] loop by simp
        show ?thesis
        proof (cases res)
          case None
          then show ?thesis
            using False by (simp add: PUT_exam_def Some body pre found loop d1 json_def)
        next
          case (Some t)
          let ?spent = "case sb_timeSpent body of None \<Rightarrow> 0 | Some n \<Rightarrow> n"
          have eq: "PUT_exam x fault d req examId body now =
              finish_submit fault d u examId (findExamById d examId) i ?spent now t"
            using False by (simp add: PUT_exam_def \<open>request_user x d req = Some u\<close> body pre
                found loop Some d1)
          have "fst (finish_submit fault d u examId (findExamById d examId) i ?spent now t) =
              json 500 False ''Failed to submit exam'' NoData"
            by (rule finish_submit_outcome [THEN conjunct1])
          then have r: "\<not> success (fst (PUT_exam x fault d req examId body now))"
            by (simp only: eq) (simp add: json_def)
          have "snd (finish_submit fault d u examId (findExamById d examId) i ?spent now t) = d \<or>
              snd (finish_submit fault d u examId (findExamById d examId) i ?spent now t) =
                updateAttempt d now Completed (t_totalScore t) (t_totalPoints t)
                  (percentage_of (t_totalScore t) (t_totalPoints t)) ?spent i"
            by (rule finish_submit_outcome [THEN conjunct2])
          then have "snd (PUT_exam x fault d req examId body now) = d \<or>
              (\<exists>sc tp pc sp i.
                 snd (PUT_exam x fault d req examId body now) =
                   updateAttempt d now Completed sc tp pc sp i)"
            unfolding eq by blast
          with r show ?thesis by simp
        qed
      qed
    qed
  qed
qed

text \<open>
  Claim C2 at any submission that passes the checks of the handler for an exam with at
  least one question: the first \<^verbatim>\<open>createAnswer.run\<close> binds a boolean and throws, the
  \<^verbatim>\<open>catch\<close> block answers with status 500 and the store is left as it was. The
  submission is not scored: no answer is counted, no percentage, pass flag or grade is
  computed, and the attempt stays in progress.
\<close>

theorem submission_throws_on_first_answer:
  assumes "request_user x d req = Some u" and "u_role u = Student"
    and "sb_attemptId body = Some i" and "i \<noteq> 0" and "sb_answers body = Some ans"
    and "findAttemptById d i = Some a" and "a_studentId a = u_id u"
    and "a_examId a = examId" and "a_status a = In_progress"
    and "findByExam d examId \<noteq> []"
  shows "PUT_exam x fault d req examId body now =
     (json 500 False ''Failed to submit exam'' NoData, d)"
proof -
  let ?t0 = "\<lparr>t_totalScore = 0, t_totalPoints = 0, t_correctAnswers = 0,
     t_wrongAnswers = 0, t_skippedAnswers = 0\<rparr>"
  have "fst (score_loop fault i ans (findByExam d examId) ?t0 d) = None"
    using assms(10) by (rule score_loop_throws)
  moreover have "snd (score_loop fault i ans (findByExam d examId) ?t0 d) = d"
    by (rule score_loop_store)
  ultimately have loop: "score_loop fault i ans (findByExam d examId) ?t0 d = (None, d)"
    by (simp add: prod_eq_iff)
  show ?thesis
    using assms(2,4,7,8,9) by (simp add: PUT_exam_def assms(1,3,5,6) loop)
qed

theorem submission_throws_on_first_answer_witness:
  "status (fst (PUT_exam ext0 no_fault (db_with In_progress) req_student 1 body57 600)) = 500 \<and>
   \<not> success (fst (PUT_exam ext0 no_fault (db_with In_progress) req_student 1 body57 600)) \<and>
   snd (PUT_exam ext0 no_fault (db_with In_progress) req_student 1 body57 600) =
     db_with In_progress \<and>
   map a_status (exam_attempts (db_with In_progress)) = [In_progress] \<and>
   exam_answers (db_with In_progress) = [] \<and>
   exam_results (db_with In_progress) = []"
proof -
  have h1: "request_user ext0 (db_with In_progress) req_student =
      Some (userWithoutPassword siswa1)"
    by code_simp
  have h2: "u_role (userWithoutPassword siswa1) = Student" by code_simp
  have h3: "sb_attemptId body57 = Some 1" by code_simp
  have h4: "(1::nat) \<noteq> 0" by simp
  have h5: "sb_answers body57 =
      Some ((\<lambda>k. None)(1 := Some (JString ''1''), 2 := Some (JString ''1'')))"
    by (simp add: body57_def)
  have h6: "findAttemptById (db_with In_progress) 1 = Some (attempt1 In_progress)"
    by code_simp
  have h7: "a_studentId (attempt1 In_progress) = u_id (userWithoutPassword siswa1)"
    by code_simp
  have h8: "a_examId (attempt1 In_progress) = 1" by code_simp
  have h9: "a_status (attempt1 In_progress) = In_progress" by code_simp
  have h10: "findByExam (db_with In_progress) 1 \<noteq> []" by code_simp
  have rows: "map a_status (exam_attempts (db_with In_progress)) = [In_progress]"
    "exam_answers (db_with In_progress) = []" "exam_results (db_with In_progress) = []"
    by code_simp+
  from submission_throws_on_first_answer [OF h1 h2 h3 h4 h5 h6 h7 h8 h9 h10,
      of no_fault 600] rows
  show ?thesis by (simp add: json_def)
qed

text \<open>
  Line 294 is reached only for an exam without questions, where the percentage is 0.
  The quotients and products that it forms otherwise are rounded to doubles: 1 / 3 and
  2 / 3, and the percentages of 70, 7, 29, 57 and 58 of 100, which JavaScript prints as
  70, 7.000000000000001, 28.999999999999996, 56.99999999999999 and 57.99999999999999.
\<close>

lemma percentage_of_no_points: "totalPoints \<le> 0 \<Longrightarrow> percentage_of totalScore totalPoints = 0"
  by (simp add: percentage_of_def)

lemma double_rounding_examples:
  "js_div 1 3 = 6004799503160661 / 18014398509481984"
  "js_div 2 3 = 6004799503160661 / 9007199254740992"
  "percentage_of 70 100 = 70"
  "percentage_of 7 100 = 7881299347898369 / 1125899906842624"
  "percentage_of 29 100 = 8162774324609023 / 281474976710656"
  "percentage_of 57 100 = 8022036836253695 / 140737488355328"
  "percentage_of 58 100 = 8162774324609023 / 140737488355328"
  by code_simp+

section \<open>Results and completed attempts\<close>




lemma updateAttempt_results:
  "exam_results (updateAttempt d e st sc tp pc sp i) = exam_results d"
  by (simp add: updateAttempt_def)




lemma auth_tables:
  "exam_attempts (snd (POST_auth x d req body)) = exam_attempts d \<and>
   exam_results (snd (POST_auth x d req body)) = exam_results d"
  by (auto simp: POST_auth_def handleRegister_def createUser_def Let_def
      split: auth_body.splits sum.splits sqlite_error.splits)



text \<open>
  No request inserts a result: the only insert into \<^verbatim>\<open>exam_results\<close> is the one of the
  submission, which throws.
\<close>

lemma step_results: "exam_results (step x d ev) = exam_results d"
proof (cases ev)
  case (Start req examId now rnd)
  show ?thesis
  proof (cases "start_check x d req examId now")
    case (Inl r)
    then show ?thesis by (simp add: Start POST_exam_def)
  next
    case (Inr p)
    then show ?thesis
      by (cases p) (simp add: Start POST_exam_def start_insert_store)
  qed
next
  case (Submit fault req examId body now)
  have "snd (PUT_exam x fault d req examId body now) = d \<or>
      (\<exists>sc tp pc sp i.
         snd (PUT_exam x fault d req examId body now) =
           updateAttempt d now Completed sc tp pc sp i)"
    by (rule PUT_exam_outcome [THEN conjunct2])
  then show ?thesis by (auto simp: Submit updateAttempt_results)
next
  case (Auth req body)
  then show ?thesis using auth_tables [of x d req body] by simp
next
  case (Catalog es qs)
  then show ?thesis by simp
qed

lemma run_results: "exam_results (run x d evs) = exam_results d"
proof (induction evs arbitrary: d)
  case Nil
  show ?case by (simp add: run_def)
next
  case (Cons ev evs)
  have "exam_results (run x (step x d ev) evs) = exam_results (step x d ev)"
    by (rule Cons.IH)
  then show ?case by (simp add: run_def step_results)
qed




section \<open>Status codes of conflicts\<close>

text \<open>The registration answers a taken username or email with status 409.\<close>

lemma register_conflict_409:
  assumes "isValid (validateUsername (rd_username data))" and "validateEmail (rd_email data)"
    and "isValid (validatePassword (rd_password data))"
    and "findByUsername d (rd_username data) \<noteq> None \<or> findByEmail d (rd_email data) \<noteq> None"
  shows "status (fst (handleRegister x d data)) = 409"
  using assms by (auto simp: handleRegister_def json_def Let_def)

text \<open>
  Claim C6 at a start for a pair that has an attempt, and at a submission for an attempt
  that is completed: both are answered with status 400, where the claim has 409.
\<close>

theorem conflicts_answered_400:
  "status (fst (POST_exam ext0 (db_with In_progress) req_student 1 500 [])) = 400 \<and>
   message (fst (POST_exam ext0 (db_with In_progress) req_student 1 500 [])) =
     ''You have already taken this exam'' \<and>
   status (fst (PUT_exam ext0 no_fault (db_with Completed) req_student 1 body57 600)) = 400 \<and>
   message (fst (PUT_exam ext0 no_fault (db_with Completed) req_student 1 body57 600)) =
     ''Attempt already completed''"
  by code_simp

theorem conflicts_answered_400_witness:
  "status (fst (POST_exam ext0 (db_with In_progress) req_student 1 500 [])) \<noteq> 409 \<and>
   status (fst (PUT_exam ext0 no_fault (db_with Completed) req_student 1 body57 600)) \<noteq> 409"
  using conflicts_answered_400 by simp

section \<open>Access policy\<close>

text \<open>
  Claim C7. For every identity and owner id, \<^verbatim>\<open>canManageExam\<close> is true when the role
  is admin, true when the role is teacher and the identity's id is the owner id, and false
  in every other case.
\<close>

theorem canManageExam_spec:
  "canManageExam u teacherId =
     (u_role u = Admin \<or> (u_role u = Teacher \<and> teacherId = Some (u_id u)))"
  by (simp add: canManageExam_def isAdmin_def isTeacher_def)

theorem canManageExam_spec_witness:
  "canManageExam (userWithoutPassword teacher1) (Some 2) \<and>
   \<not> canManageExam (userWithoutPassword teacher1) (Some 3) \<and>
   \<not> canManageExam (userWithoutPassword siswa1) (Some 1)"
  by (simp add: canManageExam_spec userWithoutPassword_def teacher1_def siswa1_def)

section \<open>Login and registration\<close>



text \<open>
  A login that succeeds issues a token for the user's id, username and role. When the
  library verifies what it signed, and ids are unique in the store, the token resolves
  to the identity that the login returned.
\<close>

lemma find_by_unique_key:
  assumes "distinct (map f xs)" and "v \<in> set xs"
  shows "find (\<lambda>w. f w = f v) xs = Some v"
  using assms by (induction xs) (auto simp: image_iff)

lemma issued_token_resolves:
  assumes "jwt_verify x (jwt_sign x \<lparr>p_userId = u_id u, p_username = u_username u,
             p_role = u_role u\<rparr>) =
           Some \<lparr>p_userId = u_id u, p_username = u_username u, p_role = u_role u\<rparr>"
    and "distinct (map u_id (users d))"
    and "name \<noteq> []" and "pw \<noteq> []"
    and "findByUsername d name = Some u"
    and "bcrypt_compare x pw (u_password u)"
  shows "ar_user (authenticateUser x d \<lparr>lc_username = Some name, lc_password = Some pw\<rparr>) =
           Some (userWithoutPassword u) \<and>
         map_option (getUserFromToken x d)
           (ar_token (authenticateUser x d \<lparr>lc_username = Some name, lc_password = Some pw\<rparr>)) =
           Some (Some (userWithoutPassword u))"
proof -
  from assms(5) have "u \<in> set (users d)"
    by (auto simp: findByUsername_def find_Some_iff)
  with assms(2) have "findUserById d (u_id u) = Some u"
    unfolding findUserById_def by (rule find_by_unique_key)
  then show ?thesis
    using assms(1,3,4,5,6)
    by (simp add: authenticateUser_def falsy_def generateToken_def getUserFromToken_def
        verifyToken_def userWithoutPassword_def)
qed



end
